theory Spec2Isabelle
  imports Main "HOL-Library.Word"
begin

unbundle bit_operations_syntax

section \<open>Announcement endpoints of the Mergington High School API\<close>

text \<open>
  A shallow embedding of \<^verbatim>\<open>src/backend/routers/announcements.py\<close>. The four endpoints
  (\<open>list_announcements\<close>, \<open>add_announcement\<close>, \<open>update_announcement\<close>,
  \<open>delete_announcement\<close>) are functions from the request and the state of the
  announcements collection to a result and the new state of the collection. What the
  Python reads from its environment is an argument of the model: the clock
  (\<^verbatim>\<open>datetime.utcnow()\<close>), the ObjectId that the driver generates for an inserted
  document, and the identity returned by \<^verbatim>\<open>get_current_user\<close>. An exception is a value
  of type \<open>error\<close> on the left of a sum.
\<close>

subsection \<open>Timestamps and ObjectIds\<close>

text \<open>A timestamp is a point on an integer time line (the store keeps milliseconds).\<close>

type_synonym datetime = int

text \<open>
  A BSON ObjectId holds a string of bytes, twelve of them in every id that the driver
  generates. \<^verbatim>\<open>ObjectId(s)\<close> accepts a string \<open>s\<close> of exactly 24 characters that
  \<^verbatim>\<open>bytes.fromhex\<close> decodes, and raises InvalidId otherwise (here: \<open>None\<close>).
  \<^verbatim>\<open>bytes.fromhex\<close> reads two hexadecimal digits (of either case) per byte and skips
  ASCII whitespace before a byte, so a string of 24 characters with whitespace between
  its bytes is accepted and gives fewer than twelve bytes. \<^verbatim>\<open>ObjectId.is_valid(s)\<close>
  tells whether \<^verbatim>\<open>ObjectId(s)\<close> would succeed. \<^verbatim>\<open>str(oid)\<close> is \<^verbatim>\<open>hexlify\<close> of the
  bytes: two lower-case hexadecimal digits per byte.
\<close>

type_synonym ObjectId = "8 word list"

definition hex_digit :: "nat \<Rightarrow> char" where
  "hex_digit n = ''0123456789abcdef'' ! n"

definition hex_value :: "char \<Rightarrow> nat option" where
  "hex_value c =
     (let n = (of_char c :: nat) in
      if 48 \<le> n \<and> n \<le> 57 then Some (n - 48)
      else if 97 \<le> n \<and> n \<le> 102 then Some (n - 87)
      else if 65 \<le> n \<and> n \<le> 70 then Some (n - 55)
      else None)"

definition isspace :: "char \<Rightarrow> bool" where
  "isspace c = (let n = (of_char c :: nat) in n = 32 \<or> (9 \<le> n \<and> n \<le> 13))"

fun fromhex :: "string \<Rightarrow> 8 word list option" where
  "fromhex [] = Some []"
| "fromhex [c] = (if isspace c then Some [] else None)"
| "fromhex (c # c' # cs) =
     (if isspace c then fromhex (c' # cs)
      else (case hex_value c of
              None \<Rightarrow> None
            | Some hi \<Rightarrow>
                (case hex_value c' of
                   None \<Rightarrow> None
                 | Some lo \<Rightarrow>
                     (case fromhex cs of
                        None \<Rightarrow> None
                      | Some bs \<Rightarrow> Some (of_nat (hi * 16 + lo) # bs)))))"

definition ObjectId :: "string \<Rightarrow> ObjectId option" where
  "ObjectId s = (if length s = 24 then fromhex s else None)"

definition is_valid :: "string \<Rightarrow> bool" where
  "is_valid s = (ObjectId s \<noteq> None)"

definition hexlify :: "8 word list \<Rightarrow> string" where
  "hexlify bs = concat (map (\<lambda>b. [hex_digit (unat b div 16), hex_digit (unat b mod 16)]) bs)"

definition str_oid :: "ObjectId \<Rightarrow> string" where
  "str_oid oid = hexlify oid"

subsection \<open>Documents, models and errors\<close>

text \<open>
  The value under \<^verbatim>\<open>"_id"\<close> of a stored document is an ObjectId or a string; the store
  compares the two kinds as different values.
\<close>

datatype id_value = OidV ObjectId | StrV string

text \<open>
  A stored document. The service writes \<^verbatim>\<open>title\<close>, \<^verbatim>\<open>message\<close>, \<^verbatim>\<open>start_date\<close>
  and \<^verbatim>\<open>expiration_date\<close> as a value or as null (\<open>None\<close>); \<^verbatim>\<open>created_at\<close> and
  \<^verbatim>\<open>author\<close> are written once, at creation.
\<close>

record document =
  d_id :: id_value
  d_title :: "string option"
  d_message :: "string option"
  d_created_at :: datetime
  d_start_date :: "datetime option"
  d_expiration_date :: "datetime option"
  d_author :: string

text \<open>The dictionary that \<open>add_announcement\<close> builds, before the store gives it an id.\<close>

record new_document =
  n_title :: string
  n_message :: string
  n_created_at :: datetime
  n_start_date :: "datetime option"
  n_expiration_date :: datetime
  n_author :: string

definition with_id :: "id_value \<Rightarrow> new_document \<Rightarrow> document" where
  "with_id v n =
     \<lparr>d_id = v, d_title = Some (n_title n), d_message = Some (n_message n),
      d_created_at = n_created_at n, d_start_date = n_start_date n,
      d_expiration_date = Some (n_expiration_date n), d_author = n_author n\<rparr>"

text \<open>The response model \<^verbatim>\<open>Announcement\<close>.\<close>

record Announcement =
  a_id :: "string option"
  a_title :: string
  a_message :: string
  a_created_at :: datetime
  a_start_date :: "datetime option"
  a_expiration_date :: datetime
  a_author :: string

text \<open>
  The JSON body of a create request, as the client sends it: each key is absent or null
  (\<open>None\<close>) or carries a value. A client may send keys that the request model
  \<^verbatim>\<open>AnnouncementCreate\<close> does not declare (\<^verbatim>\<open>author\<close>, \<^verbatim>\<open>created_at\<close>, \<^verbatim>\<open>_id\<close>).
\<close>

record create_body =
  b_title :: "string option"
  b_message :: "string option"
  b_start_date :: "datetime option"
  b_expiration_date :: "datetime option"
  b_author :: "string option"
  b_created_at :: "datetime option"
  b_id :: "string option"

record AnnouncementCreate =
  c_title :: string
  c_message :: string
  c_start_date :: "datetime option"
  c_expiration_date :: datetime

text \<open>
  The request model \<^verbatim>\<open>AnnouncementUpdate\<close>. Every field is optional and the model
  remembers which fields the client set: \<open>None\<close> is a field that was not set,
  \<open>Some None\<close> a field set to null, \<open>Some (Some v)\<close> a field set to \<open>v\<close>.
\<close>

record AnnouncementUpdate =
  u_title :: "string option option"
  u_message :: "string option option"
  u_start_date :: "datetime option option"
  u_expiration_date :: "datetime option option"

text \<open>
  Modelled from the spec: \<^verbatim>\<open>get_current_user\<close> lives in \<^verbatim>\<open>src/backend/routers/auth.py\<close>,
  which is not among the sources at hand; the identity it returns exposes a username.
\<close>

record user =
  username :: string

datatype error =
    ValidationError
  | HTTPException nat string

text \<open>
  Validation of a create body by \<^verbatim>\<open>AnnouncementCreate\<close>: \<^verbatim>\<open>title\<close> and \<^verbatim>\<open>message\<close>
  are required with \<^verbatim>\<open>min_length=1\<close>, \<^verbatim>\<open>expiration_date\<close> is required, \<^verbatim>\<open>start_date\<close>
  defaults to null, and undeclared keys are dropped.
\<close>

definition AnnouncementCreate :: "create_body \<Rightarrow> error + AnnouncementCreate" where
  "AnnouncementCreate b =
     (case b_title b of
        None \<Rightarrow> Inl ValidationError
      | Some t \<Rightarrow>
          if length t < 1 then Inl ValidationError
          else (case b_message b of
                  None \<Rightarrow> Inl ValidationError
                | Some m \<Rightarrow>
                    if length m < 1 then Inl ValidationError
                    else (case b_expiration_date b of
                            None \<Rightarrow> Inl ValidationError
                          | Some e \<Rightarrow>
                              Inr \<lparr>c_title = t, c_message = m,
                                   c_start_date = b_start_date b,
                                   c_expiration_date = e\<rparr>)))"

text \<open>
  \<^verbatim>\<open>Announcement(**doc)\<close>: \<^verbatim>\<open>_id\<close> must be a string, and \<^verbatim>\<open>title\<close>, \<^verbatim>\<open>message\<close> and
  \<^verbatim>\<open>expiration_date\<close> must not be null.
\<close>

definition Announcement :: "document \<Rightarrow> error + Announcement" where
  "Announcement d =
     (case d_id d of
        OidV oid \<Rightarrow> Inl ValidationError
      | StrV s \<Rightarrow>
          (case d_title d of
             None \<Rightarrow> Inl ValidationError
           | Some t \<Rightarrow>
               (case d_message d of
                  None \<Rightarrow> Inl ValidationError
                | Some m \<Rightarrow>
                    (case d_expiration_date d of
                       None \<Rightarrow> Inl ValidationError
                     | Some e \<Rightarrow>
                         Inr \<lparr>a_id = Some s, a_title = t, a_message = m,
                              a_created_at = d_created_at d,
                              a_start_date = d_start_date d,
                              a_expiration_date = e,
                              a_author = d_author d\<rparr>))))"

text \<open>
  \<^verbatim>\<open>if isinstance(doc.get("_id"), ObjectId): doc["_id"] = str(doc["_id"])\<close>
\<close>

definition stringify_id :: "document \<Rightarrow> document" where
  "stringify_id d =
     (case d_id d of
        OidV oid \<Rightarrow> d\<lparr>d_id := StrV (str_oid oid)\<rparr>
      | StrV s \<Rightarrow> d)"

subsection \<open>The announcements collection\<close>

text \<open>
  Modelled from the spec: the object \<^verbatim>\<open>announcements_collection\<close> is created in
  \<^verbatim>\<open>src/backend/database.py\<close>, which is not among the sources at hand. By the spec's
  contract of the document store it is a collection of records keyed by an id, with a
  filtered find, an insert that returns the generated id, an atomic find-and-update
  that returns the updated record and a delete that returns a count. Here the
  collection is the list of its documents in the store's natural order, together with
  the sequence of calls that the service has made on it.
\<close>

datatype store_call = Find | InsertOne | FindOneAndUpdate | DeleteOne

record collection =
  docs :: "document list"
  calls :: "store_call list"

text \<open>
  The three shapes of filter that the service sends: \<^verbatim>\<open>{}\<close>,
  \<^verbatim>\<open>{"expiration_date": {"$gt": now}}\<close> and \<^verbatim>\<open>{"_id": v}\<close>. A null date is not greater
  than any date.
\<close>

datatype query = MatchAll | ExpirationGt datetime | IdEq id_value

fun matches :: "query \<Rightarrow> document \<Rightarrow> bool" where
  "matches MatchAll d = True"
| "matches (ExpirationGt t) d =
     (case d_expiration_date d of None \<Rightarrow> False | Some e \<Rightarrow> t < e)"
| "matches (IdEq v) d = (d_id d = v)"

definition find_coll :: "query \<Rightarrow> collection \<Rightarrow> document list \<times> collection" where
  "find_coll q c = (filter (matches q) (docs c), c\<lparr>calls := calls c @ [Find]\<rparr>)"

definition insert_one :: "ObjectId \<Rightarrow> new_document \<Rightarrow> collection \<Rightarrow> ObjectId \<times> collection" where
  "insert_one oid n c =
     (oid, c\<lparr>docs := docs c @ [with_id (OidV oid) n], calls := calls c @ [InsertOne]\<rparr>)"

text \<open>\<^verbatim>\<open>{"$set": update_fields}\<close>: the fields that were set are written, null included.\<close>

definition set_fields :: "AnnouncementUpdate \<Rightarrow> document \<Rightarrow> document" where
  "set_fields u d =
     d\<lparr>d_title := (case u_title u of None \<Rightarrow> d_title d | Some v \<Rightarrow> v),
       d_message := (case u_message u of None \<Rightarrow> d_message d | Some v \<Rightarrow> v),
       d_start_date := (case u_start_date u of None \<Rightarrow> d_start_date d | Some v \<Rightarrow> v),
       d_expiration_date :=
         (case u_expiration_date u of None \<Rightarrow> d_expiration_date d | Some v \<Rightarrow> v)\<rparr>"

text \<open>The first document that matches is replaced; the result is the document after the update.\<close>

fun update_first ::
  "query \<Rightarrow> (document \<Rightarrow> document) \<Rightarrow> document list \<Rightarrow> (document \<times> document list) option" where
  "update_first q f [] = None"
| "update_first q f (d # ds) =
     (if matches q d then Some (f d, f d # ds)
      else (case update_first q f ds of
              None \<Rightarrow> None
            | Some (r, ds') \<Rightarrow> Some (r, d # ds')))"

definition find_one_and_update ::
  "query \<Rightarrow> AnnouncementUpdate \<Rightarrow> collection \<Rightarrow> document option \<times> collection" where
  "find_one_and_update q u c =
     (case update_first q (set_fields u) (docs c) of
        None \<Rightarrow> (None, c\<lparr>calls := calls c @ [FindOneAndUpdate]\<rparr>)
      | Some (r, ds) \<Rightarrow> (Some r, c\<lparr>docs := ds, calls := calls c @ [FindOneAndUpdate]\<rparr>))"

fun delete_first :: "query \<Rightarrow> document list \<Rightarrow> document list option" where
  "delete_first q [] = None"
| "delete_first q (d # ds) =
     (if matches q d then Some ds
      else (case delete_first q ds of None \<Rightarrow> None | Some ds' \<Rightarrow> Some (d # ds')))"

text \<open>\<open>delete_one\<close> returns \<^verbatim>\<open>deleted_count\<close>.\<close>

definition delete_one :: "query \<Rightarrow> collection \<Rightarrow> nat \<times> collection" where
  "delete_one q c =
     (case delete_first q (docs c) of
        None \<Rightarrow> (0, c\<lparr>calls := calls c @ [DeleteOne]\<rparr>)
      | Some ds \<Rightarrow> (1, c\<lparr>docs := ds, calls := calls c @ [DeleteOne]\<rparr>))"

subsection \<open>The endpoints\<close>

text \<open>The loop of \<open>list_announcements\<close>: the first document that the model rejects raises.\<close>

fun to_announcements :: "document list \<Rightarrow> error + Announcement list" where
  "to_announcements [] = Inr []"
| "to_announcements (d # ds) =
     (case Announcement (stringify_id d) of
        Inl e \<Rightarrow> Inl e
      | Inr a \<Rightarrow>
          (case to_announcements ds of
             Inl e \<Rightarrow> Inl e
           | Inr as \<Rightarrow> Inr (a # as)))"

text \<open>The query parameter \<^verbatim>\<open>active_only\<close> is optional and defaults to \<^verbatim>\<open>True\<close>.\<close>

definition list_announcements ::
  "bool option \<Rightarrow> datetime \<Rightarrow> collection \<Rightarrow> (error + Announcement list) \<times> collection" where
  "list_announcements param now c =
     (let active_only = (case param of None \<Rightarrow> True | Some b \<Rightarrow> b);
          query = ExpirationGt now;
          (ds, c') = (if active_only then find_coll query c else find_coll MatchAll c)
      in (to_announcements ds, c'))"

definition add_announcement ::
  "create_body \<Rightarrow> user \<Rightarrow> datetime \<Rightarrow> ObjectId \<Rightarrow> collection
     \<Rightarrow> (error + Announcement) \<times> collection" where
  "add_announcement body usr now new_oid c =
     (case AnnouncementCreate body of
        Inl e \<Rightarrow> (Inl e, c)
      | Inr data \<Rightarrow>
          (let doc = \<lparr>n_title = c_title data, n_message = c_message data,
                      n_created_at = now, n_start_date = c_start_date data,
                      n_expiration_date = c_expiration_date data,
                      n_author = username usr\<rparr>;
               (inserted_id, c') = insert_one new_oid doc c
           in (Announcement (with_id (StrV (str_oid inserted_id)) doc), c')))"

text \<open>\<^verbatim>\<open>not update_fields\<close>: no field of the body was set.\<close>

definition no_update_fields :: "AnnouncementUpdate \<Rightarrow> bool" where
  "no_update_fields u =
     (u_title u = None \<and> u_message u = None \<and> u_start_date u = None
      \<and> u_expiration_date u = None)"

text \<open>
  \<^verbatim>\<open>{"_id": ObjectId(announcement_id) if ObjectId.is_valid(announcement_id) else announcement_id}\<close>
\<close>

definition id_query :: "string \<Rightarrow> query" where
  "id_query announcement_id =
     IdEq (if is_valid announcement_id
           then (case ObjectId announcement_id of Some oid \<Rightarrow> OidV oid
                 | None \<Rightarrow> StrV announcement_id)
           else StrV announcement_id)"

definition update_announcement ::
  "string \<Rightarrow> AnnouncementUpdate \<Rightarrow> user \<Rightarrow> collection
     \<Rightarrow> (error + Announcement) \<times> collection" where
  "update_announcement announcement_id data usr c =
     (if no_update_fields data then (Inl (HTTPException 400 ''No fields to update.''), c)
      else
        (let query = id_query announcement_id;
             (result, c') = find_one_and_update query data c
         in (case result of
               None \<Rightarrow> (Inl (HTTPException 404 ''Announcement not found.''), c')
             | Some r \<Rightarrow> (Announcement (stringify_id r), c'))))"

definition delete_announcement ::
  "string \<Rightarrow> user \<Rightarrow> collection \<Rightarrow> (error + bool) \<times> collection" where
  "delete_announcement announcement_id usr c =
     (let query = id_query announcement_id;
          (deleted_count, c') = delete_one query c
      in if deleted_count = 0
         then (Inl (HTTPException 404 ''Announcement not found.''), c')
         else (Inr True, c'))"

subsection \<open>Notions used to state the properties\<close>

text \<open>
  The fields that the response model \<^verbatim>\<open>Announcement\<close> requires of a document:
  \<^verbatim>\<open>title: str\<close>, \<^verbatim>\<open>message: str\<close> and \<^verbatim>\<open>expiration_date: datetime\<close> are not null.
\<close>

definition has_required_fields :: "document \<Rightarrow> bool" where
  "has_required_fields d =
     (d_title d \<noteq> None \<and> d_message d \<noteq> None \<and> d_expiration_date d \<noteq> None)"

text \<open>The string form of an id: an ObjectId is written in hexadecimal, a string is itself.\<close>

definition id_string :: "id_value \<Rightarrow> string" where
  "id_string v = (case v of OidV oid \<Rightarrow> str_oid oid | StrV s \<Rightarrow> s)"

text \<open>
  \<open>represents d a\<close>: the announcement \<open>a\<close> carries the fields of the document \<open>d\<close>, and
  the id of \<open>d\<close> in string form.
\<close>

definition represents :: "document \<Rightarrow> Announcement \<Rightarrow> bool" where
  "represents d a =
     (a_id a = Some (id_string (d_id d))
      \<and> d_title d = Some (a_title a)
      \<and> d_message d = Some (a_message a)
      \<and> a_created_at a = d_created_at d
      \<and> a_start_date a = d_start_date d
      \<and> d_expiration_date d = Some (a_expiration_date a)
      \<and> a_author a = d_author d)"

text \<open>
  The invariant of stored announcements: \<^verbatim>\<open>title\<close> and \<^verbatim>\<open>message\<close> are non-empty
  texts and \<^verbatim>\<open>expiration_date\<close> is present.
\<close>

definition stored_invariant :: "document \<Rightarrow> bool" where
  "stored_invariant d =
     ((case d_title d of None \<Rightarrow> False | Some t \<Rightarrow> t \<noteq> [])
      \<and> (case d_message d of None \<Rightarrow> False | Some m \<Rightarrow> m \<noteq> [])
      \<and> d_expiration_date d \<noteq> None)"

subsection \<open>Example data\<close>

definition exam_oid :: ObjectId where
  "exam_oid = [0x50, 0x7f, 0x1f, 0x77, 0xbc, 0xf8, 0x6c, 0xd7, 0x99, 0x43, 0x90, 0x11]"

definition alice :: user where
  "alice = \<lparr>username = ''alice''\<rparr>"

text \<open>A document created through \<open>add_announcement\<close>: its id is an ObjectId.\<close>

definition exam_week :: document where
  "exam_week =
     \<lparr>d_id = OidV exam_oid, d_title = Some ''Exam week'',
      d_message = Some ''Finals start Monday'', d_created_at = 1000, d_start_date = None,
      d_expiration_date = Some 8000, d_author = ''alice''\<rparr>"

text \<open>A document whose id is a string that is not the hexadecimal form of an ObjectId.\<close>

definition old_notice :: document where
  "old_notice =
     \<lparr>d_id = StrV ''notice-1'', d_title = Some ''Bus strike'',
      d_message = Some ''No buses today'', d_created_at = 100, d_start_date = Some 100,
      d_expiration_date = Some 500, d_author = ''bob''\<rparr>"

text \<open>A document whose id is the string form of an ObjectId, stored as a string.\<close>

definition imported :: document where
  "imported =
     \<lparr>d_id = StrV ''507f1f77bcf86cd799439011'', d_title = Some ''Science fair'',
      d_message = Some ''In the gym'', d_created_at = 200, d_start_date = None,
      d_expiration_date = Some 9000, d_author = ''carol''\<rparr>"

definition no_fields :: AnnouncementUpdate where
  "no_fields =
     \<lparr>u_title = None, u_message = None, u_start_date = None, u_expiration_date = None\<rparr>"

definition exam_body :: create_body where
  "exam_body =
     \<lparr>b_title = Some ''Exam week'', b_message = Some ''Finals start Monday'',
      b_start_date = None, b_expiration_date = Some 8000,
      b_author = Some ''mallory'', b_created_at = Some 1, b_id = Some ''chosen-id''\<rparr>"

definition retitle :: AnnouncementUpdate where
  "retitle =
     \<lparr>u_title = Some (Some ''Updated''), u_message = None, u_start_date = None,
      u_expiration_date = None\<rparr>"

definition school :: collection where
  "school = \<lparr>docs = [old_notice, exam_week], calls = []\<rparr>"

definition exam_announcement :: Announcement where
  "exam_announcement =
     \<lparr>a_id = Some ''507f1f77bcf86cd799439011'', a_title = ''Exam week'',
      a_message = ''Finals start Monday'', a_created_at = 1000, a_start_date = None,
      a_expiration_date = 8000, a_author = ''alice''\<rparr>"

definition blank_title :: AnnouncementUpdate where
  "blank_title =
     \<lparr>u_title = Some (Some []), u_message = None, u_start_date = None,
      u_expiration_date = None\<rparr>"

definition null_expiration :: AnnouncementUpdate where
  "null_expiration =
     \<lparr>u_title = None, u_message = None, u_start_date = None,
      u_expiration_date = Some None\<rparr>"

section \<open>Properties\<close>

subsection \<open>Auxiliary facts\<close>

lemma Announcement_stringify_iff:
  "Announcement (stringify_id d) = Inr a \<longleftrightarrow> represents d a"
  by (cases a; cases d)
     (auto simp: Announcement_def stringify_id_def represents_def id_string_def
           split: id_value.splits option.splits)

lemma Announcement_stringify_ok:
  "has_required_fields d \<Longrightarrow> \<exists>a. Announcement (stringify_id d) = Inr a"
  by (auto simp: Announcement_def stringify_id_def has_required_fields_def
           split: id_value.splits option.splits)

lemma to_announcements_Inr_iff:
  "to_announcements ds = Inr as \<longleftrightarrow> list_all2 represents ds as"
proof (induction ds arbitrary: as)
  case Nil
  show ?case by auto
next
  case (Cons d ds)
  have IH: "list_all2 represents ds cs \<longleftrightarrow> to_announcements ds = Inr cs" for cs
    by (simp only: Cons.IH)
  have hd: "represents d b \<longleftrightarrow> Announcement (stringify_id d) = Inr b" for b
    by (simp only: Announcement_stringify_iff)
  show ?case
  proof (cases as)
    case Nil
    then show ?thesis by (simp split: sum.splits)
  next
    case (Cons b bs)
    then show ?thesis
      by (simp only: list_all2_Cons IH hd to_announcements.simps)
         (auto split: sum.splits)
  qed
qed

lemma to_announcements_ok:
  "\<forall>d \<in> set ds. has_required_fields d \<Longrightarrow> \<exists>as. to_announcements ds = Inr as"
proof (induction ds)
  case Nil
  show ?case by simp
next
  case (Cons d ds)
  from Cons.prems obtain a where "Announcement (stringify_id d) = Inr a"
    using Announcement_stringify_ok by auto
  moreover from Cons obtain as where "to_announcements ds = Inr as" by auto
  ultimately show ?case by simp
qed

lemma update_first_None_iff:
  "update_first q f ds = None \<longleftrightarrow> (\<forall>d \<in> set ds. \<not> matches q d)"
  by (induction ds) (auto split: option.splits)

lemma update_first_Some:
  "update_first q f ds = Some (r, ds') \<Longrightarrow>
     \<exists>i < length ds. matches q (ds ! i) \<and> (\<forall>j < i. \<not> matches q (ds ! j))
        \<and> r = f (ds ! i) \<and> ds' = ds[i := f (ds ! i)]"
proof (induction ds arbitrary: ds')
  case Nil
  then show ?case by simp
next
  case (Cons d ds)
  show ?case
  proof (cases "matches q d")
    case True
    with Cons.prems have "r = f d" "ds' = f d # ds" by auto
    with True show ?thesis by (intro exI [of _ 0]) simp
  next
    case False
    with Cons.prems obtain es where es: "update_first q f ds = Some (r, es)" "ds' = d # es"
      by (auto split: option.splits)
    from Cons.IH [OF es(1)] obtain i where i: "i < length ds" "matches q (ds ! i)"
      "\<forall>j < i. \<not> matches q (ds ! j)" "r = f (ds ! i)" "es = ds[i := f (ds ! i)]"
      by blast
    have "\<forall>j < Suc i. \<not> matches q ((d # ds) ! j)"
      using False i(3) by (auto simp: less_Suc_eq_0_disj)
    with i es(2) show ?thesis by (intro exI [of _ "Suc i"]) simp
  qed
qed

lemma delete_first_None_iff:
  "delete_first q ds = None \<longleftrightarrow> (\<forall>d \<in> set ds. \<not> matches q d)"
  by (induction ds) (auto split: option.splits)

lemma delete_first_Some:
  "delete_first q ds = Some ds' \<Longrightarrow> \<exists>d \<in> set ds. matches q d"
  using delete_first_None_iff [of q ds] by auto

lemma find_one_and_update_docs:
  "find_one_and_update q u c = (Some r, c') \<Longrightarrow>
     \<exists>i < length (docs c). matches q (docs c ! i) \<and> (\<forall>j < i. \<not> matches q (docs c ! j))
        \<and> r = set_fields u (docs c ! i) \<and> docs c' = (docs c)[i := r]"
  by (auto simp: find_one_and_update_def split: option.splits dest!: update_first_Some)

lemma find_one_and_update_None:
  "\<forall>d \<in> set (docs c). \<not> matches q d \<Longrightarrow>
     find_one_and_update q u c = (None, c\<lparr>calls := calls c @ [FindOneAndUpdate]\<rparr>)"
  using update_first_None_iff [of q "set_fields u" "docs c"]
  by (simp add: find_one_and_update_def)

lemma update_announcement_Inr:
  "update_announcement announcement_id data usr c = (Inr a, c') \<Longrightarrow>
     \<exists>i < length (docs c).
        matches (id_query announcement_id) (docs c ! i)
        \<and> (\<forall>j < i. \<not> matches (id_query announcement_id) (docs c ! j))
        \<and> docs c' = (docs c)[i := set_fields data (docs c ! i)]
        \<and> represents (set_fields data (docs c ! i)) a"
proof -
  assume upd: "update_announcement announcement_id data usr c = (Inr a, c')"
  obtain result c1 where f: "find_one_and_update (id_query announcement_id) data c = (result, c1)"
    by (cases "find_one_and_update (id_query announcement_id) data c")
  from upd f obtain r where r: "result = Some r" "c1 = c'" "Announcement (stringify_id r) = Inr a"
    by (auto simp: update_announcement_def split: if_splits option.splits)
  from f r find_one_and_update_docs [of "id_query announcement_id" data c r c']
  show ?thesis by (auto simp: Announcement_stringify_iff)
qed

lemma matches_id_set_fields:
  "matches (id_query s) (set_fields u d) = matches (id_query s) d"
  by (simp add: id_query_def set_fields_def)

text \<open>
  \<^verbatim>\<open>ObjectId(str(oid))\<close> is \<^verbatim>\<open>oid\<close>: every ObjectId of twelve bytes is read back
  from its string form.
\<close>

lemma hex_value_hex_digit:
  assumes "n < 16"
  shows "hex_value (hex_digit n) = Some n \<and> \<not> isspace (hex_digit n)"
proof -
  from assms consider "n = 0" | "n = 1" | "n = 2" | "n = 3" | "n = 4" | "n = 5" | "n = 6"
    | "n = 7" | "n = 8" | "n = 9" | "n = 10" | "n = 11" | "n = 12" | "n = 13" | "n = 14"
    | "n = 15"
    by atomize_elim arith
  then show ?thesis
    by cases (simp_all add: hex_digit_def hex_value_def isspace_def)
qed

lemma byte_nibbles: "of_nat (unat b div 16 * 16 + unat b mod 16) = (b :: 8 word)"
  by simp

lemma byte_div_less: "unat (b :: 8 word) div 16 < 16"
proof -
  have "unat b < 256" using unsigned_less [of b] by simp
  then show ?thesis by simp
qed

lemma fromhex_hexlify: "fromhex (hexlify bs) = Some bs"
proof (induction bs)
  case Nil
  show ?case by (simp add: hexlify_def)
next
  case (Cons b bs)
  have hi: "hex_value (hex_digit (unat b div 16)) = Some (unat b div 16)"
    "\<not> isspace (hex_digit (unat b div 16))"
    using hex_value_hex_digit [OF byte_div_less [of b]] by simp_all
  have lo: "hex_value (hex_digit (unat b mod 16)) = Some (unat b mod 16)"
    using hex_value_hex_digit [of "unat b mod 16"] by simp
  have "hexlify (b # bs)
      = hex_digit (unat b div 16) # hex_digit (unat b mod 16) # hexlify bs"
    by (simp add: hexlify_def)
  with Cons.IH hi lo show ?case by (simp add: byte_nibbles)
qed

lemma ObjectId_str_oid: "length oid = 12 \<Longrightarrow> ObjectId (str_oid oid) = Some oid"
  by (simp add: ObjectId_def str_oid_def fromhex_hexlify) (simp add: hexlify_def length_concat o_def sum_list_triv)

lemma id_query_str_oid: "length oid = 12 \<Longrightarrow> id_query (str_oid oid) = IdEq (OidV oid)"
  by (simp add: id_query_def is_valid_def ObjectId_str_oid)

lemma update_first_at:
  "i < length ds \<Longrightarrow> matches q (ds ! i) \<Longrightarrow> \<forall>j < i. \<not> matches q (ds ! j) \<Longrightarrow>
     update_first q f ds = Some (f (ds ! i), ds[i := f (ds ! i)])"
proof (induction ds arbitrary: i)
  case Nil
  then show ?case by simp
next
  case (Cons d ds)
  show ?case
  proof (cases i)
    case 0
    with Cons.prems show ?thesis by simp
  next
    case (Suc k)
    with Cons.prems have "\<not> matches q d" by auto
    moreover from Suc Cons.prems have "k < length ds" "matches q (ds ! k)"
      "\<forall>j < k. \<not> matches q (ds ! j)"
      by auto
    ultimately show ?thesis using Suc Cons.IH [of k] by simp
  qed
qed

lemma update_announcement_at:
  assumes "i < length (docs c)" and "matches (id_query announcement_id) (docs c ! i)"
    and "\<forall>j < i. \<not> matches (id_query announcement_id) (docs c ! j)"
    and "\<not> no_update_fields data"
  shows "update_announcement announcement_id data usr c
     = (Announcement (stringify_id (set_fields data (docs c ! i))),
        c\<lparr>docs := (docs c)[i := set_fields data (docs c ! i)],
          calls := calls c @ [FindOneAndUpdate]\<rparr>)"
  using update_first_at [OF assms(1-3), of "set_fields data"] assms(4)
  by (simp add: update_announcement_def find_one_and_update_def)

lemma represents_ids:
  "list_all2 represents ds as \<Longrightarrow>
     map a_id as = map (\<lambda>d. Some (case d_id d of OidV oid \<Rightarrow> str_oid oid | StrV s \<Rightarrow> s)) ds"
  by (induction ds as rule: list_all2_induct) (auto simp: represents_def id_string_def)

lemma list_announcements_selection:
  "list_announcements param now c
     = (to_announcements
          (filter (\<lambda>d. param = Some False \<or> (\<exists>e. d_expiration_date d = Some e \<and> now < e))
             (docs c)),
        c\<lparr>calls := calls c @ [Find]\<rparr>)"
proof -
  have sel: "matches (ExpirationGt now) = (\<lambda>d. \<exists>e. d_expiration_date d = Some e \<and> now < e)"
    by (auto split: option.splits)
  show ?thesis
  proof (cases "param = Some False")
    case True
    then show ?thesis by (simp add: list_announcements_def find_coll_def)
  next
    case False
    then have "(case param of None \<Rightarrow> True | Some b \<Rightarrow> b) = True"
      by (cases param) auto
    with False show ?thesis
      by (simp add: list_announcements_def find_coll_def sel)
  qed
qed

lemma list_announcements_on_complete_documents:
  assumes "\<forall>d \<in> set (docs c). has_required_fields d"
  shows "(\<exists>as. list_announcements (Some True) now c = (Inr as, c\<lparr>calls := calls c @ [Find]\<rparr>)
            \<and> list_all2 represents
                 (filter (\<lambda>d. \<exists>e. d_expiration_date d = Some e \<and> now < e) (docs c)) as)
       \<and> (\<exists>as. list_announcements (Some False) now c = (Inr as, c\<lparr>calls := calls c @ [Find]\<rparr>)
            \<and> list_all2 represents (docs c) as)
       \<and> list_announcements None now c = list_announcements (Some True) now c"
proof -
  from assms obtain as where as: "to_announcements (docs c) = Inr as"
    using to_announcements_ok by blast
  from assms have "\<forall>d \<in> set (filter (\<lambda>d. \<exists>e. d_expiration_date d = Some e \<and> now < e)
      (docs c)). has_required_fields d"
    by simp
  then obtain bs where bs: "to_announcements
      (filter (\<lambda>d. \<exists>e. d_expiration_date d = Some e \<and> now < e) (docs c)) = Inr bs"
    using to_announcements_ok by blast
  have "list_announcements (Some True) now c = (Inr bs, c\<lparr>calls := calls c @ [Find]\<rparr>)"
    using bs by (simp add: list_announcements_selection)
  moreover have "list_all2 represents
      (filter (\<lambda>d. \<exists>e. d_expiration_date d = Some e \<and> now < e) (docs c)) bs"
    using bs by (simp only: to_announcements_Inr_iff)
  moreover have "list_announcements (Some False) now c = (Inr as, c\<lparr>calls := calls c @ [Find]\<rparr>)"
    using as by (simp add: list_announcements_selection)
  moreover have "list_all2 represents (docs c) as"
    using as by (simp only: to_announcements_Inr_iff)
  moreover have "list_announcements None now c = list_announcements (Some True) now c"
    by (simp add: list_announcements_selection)
  ultimately show ?thesis by blast
qed

lemma stored_invariant_required:
  "stored_invariant d \<Longrightarrow> has_required_fields d"
  by (auto simp: stored_invariant_def has_required_fields_def split: option.splits)

subsection \<open>The example data evaluated\<close>

lemma str_oid_example:
  "str_oid exam_oid = ''507f1f77bcf86cd799439011''"
  by code_simp

lemma ObjectId_example:
  "ObjectId ''507f1f77bcf86cd799439011'' = Some exam_oid"
  by code_simp

text \<open>A string of 24 characters with whitespace between its bytes is a valid id of fewer bytes.\<close>

lemma ObjectId_skips_whitespace:
  "ObjectId ''507f1f77bcf86cd7994390  ''
     = Some [0x50, 0x7f, 0x1f, 0x77, 0xbc, 0xf8, 0x6c, 0xd7, 0x99, 0x43, 0x90]
   \<and> is_valid '' 507f1f77 bcf86cd7 9943 ''
   \<and> \<not> is_valid ''507f1f77bcf86cd799439 11''"
  by code_simp

lemma id_query_example:
  "id_query ''507f1f77bcf86cd799439011'' = IdEq (OidV exam_oid)"
  by (simp add: id_query_def is_valid_def ObjectId_example)

lemma id_query_notice:
  "id_query ''notice-1'' = IdEq (StrV ''notice-1'')"
  by (simp add: id_query_def is_valid_def ObjectId_def)

lemma add_example:
  "add_announcement exam_body alice 1000 exam_oid
     \<lparr>docs = [old_notice], calls = []\<rparr>
   = (Inr exam_announcement, \<lparr>docs = [old_notice, exam_week], calls = [InsertOne]\<rparr>)"
  by (simp add: add_announcement_def AnnouncementCreate_def exam_body_def alice_def
        insert_one_def with_id_def Announcement_def str_oid_example exam_announcement_def
        exam_week_def)

lemma update_example:
  "update_announcement ''507f1f77bcf86cd799439011'' retitle alice school
   = (Inr (exam_announcement\<lparr>a_title := ''Updated''\<rparr>),
      \<lparr>docs = [old_notice, exam_week\<lparr>d_title := Some ''Updated''\<rparr>],
       calls = [FindOneAndUpdate]\<rparr>)"
  by (simp add: update_announcement_def no_update_fields_def retitle_def id_query_example
        find_one_and_update_def school_def old_notice_def exam_week_def set_fields_def
        stringify_id_def Announcement_def str_oid_example exam_announcement_def)

lemma list_example:
  "list_announcements (Some False) 600 school
   = (Inr [\<lparr>a_id = Some ''notice-1'', a_title = ''Bus strike'',
            a_message = ''No buses today'', a_created_at = 100, a_start_date = Some 100,
            a_expiration_date = 500, a_author = ''bob''\<rparr>, exam_announcement],
      school\<lparr>calls := [Find]\<rparr>)"
  by (simp add: list_announcements_def find_coll_def school_def old_notice_def exam_week_def
        stringify_id_def Announcement_def str_oid_example exam_announcement_def)

subsection \<open>Update with an empty body\<close>

text \<open>
  Claim C4. For every id (whether or not a record matches it) and every state of the
  collection, \<open>update_announcement\<close> with a body in which no field is set fails with
  HTTP status 400 ("No fields to update."). The whole collection is returned as it
  was: its documents are unchanged and no call has been made on it, so no lookup was
  attempted.
\<close>

theorem update_without_fields_is_rejected:
  "update_announcement announcement_id
     \<lparr>u_title = None, u_message = None, u_start_date = None, u_expiration_date = None\<rparr> usr c
   = (Inl (HTTPException 400 ''No fields to update.''), c)"
  by (simp add: update_announcement_def no_update_fields_def)

subsection \<open>Listing\<close>

text \<open>
  Claim C1. For every call time and every state of the collection that satisfies the
  invariant of stored announcements (title and message non-empty, expiration date
  present): \<open>list_announcements\<close> with \<^verbatim>\<open>active_only=true\<close> returns, in the store's
  order, exactly the stored announcements whose expiration date is strictly greater
  than the time of the call; with \<^verbatim>\<open>active_only=false\<close> it returns all stored
  announcements; and a call without the parameter is a call with \<^verbatim>\<open>active_only=true\<close>.
  The documents of the collection are unchanged.
\<close>

theorem list_announcements_returns_active_or_all:
  assumes "list_all stored_invariant (docs c)"
  shows "(\<exists>as. list_announcements (Some True) now c = (Inr as, c\<lparr>calls := calls c @ [Find]\<rparr>)
            \<and> list_all2 represents
                 (filter (\<lambda>d. \<exists>e. d_expiration_date d = Some e \<and> now < e) (docs c)) as)
       \<and> (\<exists>as. list_announcements (Some False) now c = (Inr as, c\<lparr>calls := calls c @ [Find]\<rparr>)
            \<and> list_all2 represents (docs c) as)
       \<and> list_announcements None now c = list_announcements (Some True) now c"
proof -
  from assms have "\<forall>d \<in> set (docs c). has_required_fields d"
    by (auto simp: list_all_iff stored_invariant_required)
  then show ?thesis by (rule list_announcements_on_complete_documents)
qed

text \<open>
  The example collection at time 600: the bus strike notice expired at 500, the exam
  week announcement (expiring at 8000) is the only active one.
\<close>

theorem list_announcements_returns_active_or_all_witness:
  "(\<exists>as. list_announcements (Some True) 600 school
            = (Inr as, school\<lparr>calls := calls school @ [Find]\<rparr>)
          \<and> list_all2 represents
               (filter (\<lambda>d. \<exists>e. d_expiration_date d = Some e \<and> 600 < e) (docs school)) as)
   \<and> (\<exists>as. list_announcements (Some False) 600 school
            = (Inr as, school\<lparr>calls := calls school @ [Find]\<rparr>)
          \<and> list_all2 represents (docs school) as)
   \<and> list_announcements None 600 school = list_announcements (Some True) 600 school
   \<and> filter (\<lambda>d. \<exists>e. d_expiration_date d = Some e \<and> 600 < e) (docs school) = [exam_week]"
proof -
  have h: "list_all stored_invariant (docs school)"
    by (simp add: school_def old_notice_def exam_week_def stored_invariant_def)
  have "filter (\<lambda>d. \<exists>e. d_expiration_date d = Some e \<and> 600 < e) (docs school) = [exam_week]"
    by (simp add: school_def old_notice_def exam_week_def)
  with list_announcements_returns_active_or_all [OF h, of 600] show ?thesis by simp
qed

subsection \<open>Creation\<close>

text \<open>
  Claim C3. For every identity and every create body: whatever the client supplies
  under \<^verbatim>\<open>author\<close>, \<^verbatim>\<open>created_at\<close> and \<^verbatim>\<open>_id\<close> has no effect on the result or on the
  collection; and when an announcement is created, its author is the identity's
  username, its creation time is the time of the call and its id is the string form of
  the ObjectId assigned by the store, both in the returned announcement and in the
  stored document (which carries the ObjectId itself).
\<close>

theorem add_announcement_sets_author_and_created_at:
  "add_announcement (body\<lparr>b_author := x, b_created_at := y, b_id := z\<rparr>) usr now new_oid c
     = add_announcement body usr now new_oid c
   \<and> (add_announcement body usr now new_oid c = (Inr a, c') \<longrightarrow>
        a_author a = username usr \<and> a_created_at a = now \<and> a_id a = Some (str_oid new_oid)
        \<and> (\<exists>d. docs c' = docs c @ [d] \<and> d_author d = username usr
                 \<and> d_created_at d = now \<and> d_id d = OidV new_oid))"
proof -
  have "AnnouncementCreate (body\<lparr>b_author := x, b_created_at := y, b_id := z\<rparr>)
          = AnnouncementCreate body"
    by (simp add: AnnouncementCreate_def split: option.splits)
  then have "add_announcement (body\<lparr>b_author := x, b_created_at := y, b_id := z\<rparr>) usr now new_oid c
     = add_announcement body usr now new_oid c"
    by (simp add: add_announcement_def)
  moreover have "add_announcement body usr now new_oid c = (Inr a, c') \<Longrightarrow>
        a_author a = username usr \<and> a_created_at a = now \<and> a_id a = Some (str_oid new_oid)
        \<and> (\<exists>d. docs c' = docs c @ [d] \<and> d_author d = username usr
                 \<and> d_created_at d = now \<and> d_id d = OidV new_oid)"
    by (auto simp: add_announcement_def insert_one_def with_id_def Announcement_def
          split: sum.splits)
  ultimately show ?thesis by blast
qed

text \<open>
  The exam week announcement, created by alice at time 1000 from a body that names
  another author, another creation time and an id.
\<close>

theorem add_announcement_sets_author_and_created_at_witness:
  "add_announcement (exam_body\<lparr>b_author := None, b_created_at := None, b_id := None\<rparr>)
       alice 1000 exam_oid \<lparr>docs = [old_notice], calls = []\<rparr>
     = add_announcement exam_body alice 1000 exam_oid
         \<lparr>docs = [old_notice], calls = []\<rparr>
   \<and> a_author exam_announcement = username alice
   \<and> a_created_at exam_announcement = 1000
   \<and> a_id exam_announcement = Some (str_oid exam_oid)
   \<and> (\<exists>d. [old_notice, exam_week] = [old_notice] @ [d] \<and> d_author d = username alice
           \<and> d_created_at d = 1000 \<and> d_id d = OidV exam_oid)"
  using add_announcement_sets_author_and_created_at
          [where body = exam_body and usr = alice and now = 1000
             and new_oid = exam_oid
             and c = "\<lparr>docs = [old_notice], calls = []\<rparr>" and a = exam_announcement
             and c' = "\<lparr>docs = [old_notice, exam_week], calls = [InsertOne]\<rparr>"
             and x = None and y = None and z = None]
  by (simp add: add_example)

text \<open>
  Claim C8. \<open>add_announcement\<close> fails with a validation error, leaving the collection
  untouched, if the title is empty (absent, null or the empty string), or the message
  is empty, or the expiration date is missing; otherwise it succeeds, appends one new
  document with the body's values to the collection and returns it.
\<close>

theorem add_announcement_validates_body:
  "(b_title body = None \<or> b_title body = Some [] \<or> b_message body = None
      \<or> b_message body = Some [] \<or> b_expiration_date body = None
     \<longrightarrow> add_announcement body usr now new_oid c = (Inl ValidationError, c))
   \<and> (\<not> (b_title body = None \<or> b_title body = Some [] \<or> b_message body = None
          \<or> b_message body = Some [] \<or> b_expiration_date body = None)
     \<longrightarrow> (\<exists>a d. add_announcement body usr now new_oid c
                  = (Inr a, c\<lparr>docs := docs c @ [d], calls := calls c @ [InsertOne]\<rparr>)
               \<and> d_id d = OidV new_oid \<and> d_title d = b_title body
               \<and> d_message d = b_message body \<and> d_start_date d = b_start_date body
               \<and> d_expiration_date d = b_expiration_date body \<and> represents d a))"
  by (cases "b_title body"; cases "b_message body"; cases "b_expiration_date body")
     (auto simp: add_announcement_def AnnouncementCreate_def insert_one_def with_id_def
        Announcement_def represents_def id_string_def)

text \<open>The exam week body is accepted; the same body with an empty title is rejected.\<close>

theorem add_announcement_validates_body_witness:
  "add_announcement (exam_body\<lparr>b_title := Some []\<rparr>) alice 1000 exam_oid
       \<lparr>docs = [old_notice], calls = []\<rparr>
     = (Inl ValidationError, \<lparr>docs = [old_notice], calls = []\<rparr>)
   \<and> (\<exists>a d. add_announcement exam_body alice 1000 exam_oid
                \<lparr>docs = [old_notice], calls = []\<rparr>
              = (Inr a, \<lparr>docs = [old_notice] @ [d], calls = [] @ [InsertOne]\<rparr>)
           \<and> d_id d = OidV exam_oid \<and> d_title d = Some ''Exam week''
           \<and> d_message d = Some ''Finals start Monday'' \<and> d_start_date d = None
           \<and> d_expiration_date d = Some 8000 \<and> represents d a)"
  using add_announcement_validates_body
          [of "exam_body\<lparr>b_title := Some []\<rparr>" alice 1000 exam_oid
              "\<lparr>docs = [old_notice], calls = []\<rparr>"]
        add_announcement_validates_body
          [of exam_body alice 1000 exam_oid
              "\<lparr>docs = [old_notice], calls = []\<rparr>"]
  by (simp add: exam_body_def)

subsection \<open>Unknown ids\<close>

text \<open>
  Claim C5, amended. For every id whose query matches no stored document:
  \<open>update_announcement\<close> with a body that sets at least one field fails with HTTP
  status 404, and \<open>delete_announcement\<close> fails with HTTP status 404; in both cases the
  documents of the collection are unchanged (the collection has received one call).
\<close>

theorem unknown_id_is_not_found:
  assumes "\<forall>d \<in> set (docs c). \<not> matches (id_query announcement_id) d"
  shows "(\<not> no_update_fields data \<longrightarrow>
            update_announcement announcement_id data usr c
              = (Inl (HTTPException 404 ''Announcement not found.''),
                 c\<lparr>calls := calls c @ [FindOneAndUpdate]\<rparr>))
         \<and> delete_announcement announcement_id usr c
              = (Inl (HTTPException 404 ''Announcement not found.''),
                 c\<lparr>calls := calls c @ [DeleteOne]\<rparr>)"
proof -
  from assms have "delete_first (id_query announcement_id) (docs c) = None"
    by (simp add: delete_first_None_iff)
  then have "delete_announcement announcement_id usr c
      = (Inl (HTTPException 404 ''Announcement not found.''), c\<lparr>calls := calls c @ [DeleteOne]\<rparr>)"
    by (simp add: delete_announcement_def delete_one_def)
  moreover have "\<not> no_update_fields data \<Longrightarrow>
      update_announcement announcement_id data usr c
        = (Inl (HTTPException 404 ''Announcement not found.''),
           c\<lparr>calls := calls c @ [FindOneAndUpdate]\<rparr>)"
    using find_one_and_update_None [OF assms, of data]
    by (simp add: update_announcement_def)
  ultimately show ?thesis by simp
qed

text \<open>No document of the example collection has the id \<^verbatim>\<open>notice-2\<close>.\<close>

theorem unknown_id_is_not_found_witness:
  "update_announcement ''notice-2'' retitle alice school
     = (Inl (HTTPException 404 ''Announcement not found.''),
        school\<lparr>calls := calls school @ [FindOneAndUpdate]\<rparr>)
   \<and> delete_announcement ''notice-2'' alice school
     = (Inl (HTTPException 404 ''Announcement not found.''),
        school\<lparr>calls := calls school @ [DeleteOne]\<rparr>)"
proof -
  have h: "\<forall>d \<in> set (docs school). \<not> matches (id_query ''notice-2'') d"
    by (simp add: id_query_def is_valid_def ObjectId_def school_def old_notice_def
          exam_week_def)
  have n: "\<not> no_update_fields retitle"
    by (simp add: no_update_fields_def retitle_def)
  from unknown_id_is_not_found [OF h, of retitle alice] n show ?thesis by simp
qed

text \<open>
  Claim C5 as stated, for every update on an id that matches no record, fails: when the
  body sets no field, the update fails with status 400 before the collection is
  queried, whether or not a record matches the id.
\<close>

theorem update_without_fields_is_not_a_404:
  "list_all (\<lambda>d. \<not> matches (id_query ''notice-2'') d) (docs school)
   \<and> update_announcement ''notice-2'' no_fields alice school
       = (Inl (HTTPException 400 ''No fields to update.''), school)
   \<and> fst (update_announcement ''notice-2'' no_fields alice school)
       \<noteq> Inl (HTTPException 404 ''Announcement not found.'')"
  by (simp add: id_query_def is_valid_def ObjectId_def school_def old_notice_def
        exam_week_def update_announcement_def no_update_fields_def no_fields_def)

subsection \<open>Successful updates\<close>

text \<open>
  Claim C7. After a successful update the collection differs from the one before in one
  document only, the first that matches the id. In that document \<^verbatim>\<open>_id\<close>,
  \<^verbatim>\<open>created_at\<close> and \<^verbatim>\<open>author\<close> are as before, and each of \<^verbatim>\<open>title\<close>, \<^verbatim>\<open>message\<close>,
  \<^verbatim>\<open>start_date\<close> and \<^verbatim>\<open>expiration_date\<close> is as before when the body does not set it
  and is the value of the body when it does.
\<close>

theorem update_changes_only_supplied_fields:
  assumes "update_announcement announcement_id data usr c = (Inr a, c')"
  shows "\<exists>i < length (docs c).
           matches (id_query announcement_id) (docs c ! i)
           \<and> length (docs c') = length (docs c)
           \<and> (\<forall>j < length (docs c). j \<noteq> i \<longrightarrow> docs c' ! j = docs c ! j)
           \<and> d_id (docs c' ! i) = d_id (docs c ! i)
           \<and> d_created_at (docs c' ! i) = d_created_at (docs c ! i)
           \<and> d_author (docs c' ! i) = d_author (docs c ! i)
           \<and> d_title (docs c' ! i)
               = (case u_title data of None \<Rightarrow> d_title (docs c ! i) | Some v \<Rightarrow> v)
           \<and> d_message (docs c' ! i)
               = (case u_message data of None \<Rightarrow> d_message (docs c ! i) | Some v \<Rightarrow> v)
           \<and> d_start_date (docs c' ! i)
               = (case u_start_date data of None \<Rightarrow> d_start_date (docs c ! i) | Some v \<Rightarrow> v)
           \<and> d_expiration_date (docs c' ! i)
               = (case u_expiration_date data of
                    None \<Rightarrow> d_expiration_date (docs c ! i) | Some v \<Rightarrow> v)"
proof -
  from update_announcement_Inr [OF assms] obtain i where i: "i < length (docs c)"
    "matches (id_query announcement_id) (docs c ! i)"
    "docs c' = (docs c)[i := set_fields data (docs c ! i)]"
    by blast
  have at: "docs c' ! i = set_fields data (docs c ! i)" using i(1,3) by simp
  have others: "\<forall>j < length (docs c). j \<noteq> i \<longrightarrow> docs c' ! j = docs c ! j"
    using i(3) by simp
  have len: "length (docs c') = length (docs c)" using i(3) by simp
  show ?thesis
    using i(1,2) others len at
    by (intro exI [of _ i]) (simp add: set_fields_def)
qed

text \<open>
  Setting the title of the exam week announcement leaves its other fields and the bus
  strike notice as they were.
\<close>

theorem update_changes_only_supplied_fields_witness:
  "\<exists>i < length (docs school).
      matches (id_query ''507f1f77bcf86cd799439011'') (docs school ! i)
      \<and> length [old_notice, exam_week\<lparr>d_title := Some ''Updated''\<rparr>] = length (docs school)
      \<and> (\<forall>j < length (docs school). j \<noteq> i \<longrightarrow>
            [old_notice, exam_week\<lparr>d_title := Some ''Updated''\<rparr>] ! j = docs school ! j)
      \<and> d_title ([old_notice, exam_week\<lparr>d_title := Some ''Updated''\<rparr>] ! i) = Some ''Updated''
      \<and> d_message ([old_notice, exam_week\<lparr>d_title := Some ''Updated''\<rparr>] ! i)
          = d_message (docs school ! i)
      \<and> d_expiration_date ([old_notice, exam_week\<lparr>d_title := Some ''Updated''\<rparr>] ! i)
          = d_expiration_date (docs school ! i)"
proof -
  from update_changes_only_supplied_fields [OF update_example]
  obtain i where "i < length (docs school)"
    "matches (id_query ''507f1f77bcf86cd799439011'') (docs school ! i)"
    "length [old_notice, exam_week\<lparr>d_title := Some ''Updated''\<rparr>] = length (docs school)"
    "\<forall>j < length (docs school). j \<noteq> i \<longrightarrow>
       [old_notice, exam_week\<lparr>d_title := Some ''Updated''\<rparr>] ! j = docs school ! j"
    "d_title ([old_notice, exam_week\<lparr>d_title := Some ''Updated''\<rparr>] ! i)
       = (case u_title retitle of None \<Rightarrow> d_title (docs school ! i) | Some v \<Rightarrow> v)"
    "d_message ([old_notice, exam_week\<lparr>d_title := Some ''Updated''\<rparr>] ! i)
       = (case u_message retitle of None \<Rightarrow> d_message (docs school ! i) | Some v \<Rightarrow> v)"
    "d_expiration_date ([old_notice, exam_week\<lparr>d_title := Some ''Updated''\<rparr>] ! i)
       = (case u_expiration_date retitle of
            None \<Rightarrow> d_expiration_date (docs school ! i) | Some v \<Rightarrow> v)"
    by auto
  then show ?thesis
    by (intro exI [of _ i]) (simp add: retitle_def)
qed

text \<open>
  Claim C10. The announcement returned by a successful update represents the matched
  document as it stands in the collection after the update.
\<close>

theorem update_returns_document_after_update:
  assumes "update_announcement announcement_id data usr c = (Inr a, c')"
  shows "\<exists>i < length (docs c').
           matches (id_query announcement_id) (docs c' ! i)
           \<and> (\<forall>j < i. \<not> matches (id_query announcement_id) (docs c' ! j))
           \<and> represents (docs c' ! i) a"
proof -
  from update_announcement_Inr [OF assms] obtain i where i: "i < length (docs c)"
    "matches (id_query announcement_id) (docs c ! i)"
    "\<forall>j < i. \<not> matches (id_query announcement_id) (docs c ! j)"
    "docs c' = (docs c)[i := set_fields data (docs c ! i)]"
    "represents (set_fields data (docs c ! i)) a"
    by blast
  have "matches (id_query announcement_id) (docs c' ! i)"
    using i(1,2,4) by (simp add: matches_id_set_fields)
  moreover have "\<forall>j < i. \<not> matches (id_query announcement_id) (docs c' ! j)"
    using i(1,3,4) by simp
  moreover have "represents (docs c' ! i) a" using i(1,4,5) by simp
  moreover have "i < length (docs c')" using i(1,4) by simp
  ultimately show ?thesis by blast
qed

text \<open>The announcement returned for the exam week update carries the new title.\<close>

theorem update_returns_document_after_update_witness:
  "\<exists>i < length [old_notice, exam_week\<lparr>d_title := Some ''Updated''\<rparr>].
      matches (id_query ''507f1f77bcf86cd799439011'')
        ([old_notice, exam_week\<lparr>d_title := Some ''Updated''\<rparr>] ! i)
      \<and> represents ([old_notice, exam_week\<lparr>d_title := Some ''Updated''\<rparr>] ! i)
          (exam_announcement\<lparr>a_title := ''Updated''\<rparr>)
      \<and> a_title (exam_announcement\<lparr>a_title := ''Updated''\<rparr>) \<noteq> a_title exam_announcement"
proof -
  from update_returns_document_after_update [OF update_example]
  obtain i where "i < length [old_notice, exam_week\<lparr>d_title := Some ''Updated''\<rparr>]"
    "matches (id_query ''507f1f77bcf86cd799439011'')
        ([old_notice, exam_week\<lparr>d_title := Some ''Updated''\<rparr>] ! i)"
    "represents ([old_notice, exam_week\<lparr>d_title := Some ''Updated''\<rparr>] ! i)
          (exam_announcement\<lparr>a_title := ''Updated''\<rparr>)"
    by auto
  then show ?thesis
    by (intro exI [of _ i]) (simp add: exam_announcement_def)
qed

subsection \<open>Ids at the interface\<close>

text \<open>
  Claim C9. Every announcement returned by \<open>add_announcement\<close>, \<open>list_announcements\<close>
  or \<open>update_announcement\<close> carries its id in string form.
  \<^item> \<open>add_announcement\<close> succeeds on every body that the request model accepts, and the
    id it returns is the string form of the ObjectId that the store assigned to the
    new document.
  \<^item> \<open>list_announcements\<close> succeeds on every collection whose documents carry the
    fields that the response model requires, and the ids it returns are, one by one
    and in order, the ids of the selected documents: an ObjectId in its string form
    and a string as it is.
  \<^item> The id returned by \<open>update_announcement\<close> is the id of the first document that
    matches the request, in string form; and an update by the string form of an
    ObjectId of twelve bytes succeeds on the first document that carries this ObjectId
    and returns that string, when the body sets a field and the updated document
    carries the required fields.
\<close>

theorem returned_ids_are_strings:
  "(add_announcement body usr now new_oid c = (Inr a, c') \<longrightarrow>
      a_id a = Some (str_oid new_oid) \<and> d_id (last (docs c')) = OidV new_oid)
   \<and> (AnnouncementCreate body = Inr data \<longrightarrow>
        (\<exists>b c1. add_announcement body usr now new_oid c = (Inr b, c1)))
   \<and> (list_announcements param now c = (Inr as, c') \<longrightarrow>
        map a_id as
          = map (\<lambda>d. Some (case d_id d of OidV oid \<Rightarrow> str_oid oid | StrV s \<Rightarrow> s))
              (filter (\<lambda>d. param = Some False
                           \<or> (\<exists>e. d_expiration_date d = Some e \<and> now < e)) (docs c)))
   \<and> (list_all has_required_fields (docs c) \<longrightarrow>
        (\<exists>bs c1. list_announcements param now c = (Inr bs, c1)))
   \<and> (update_announcement announcement_id data' usr c = (Inr a, c') \<longrightarrow>
        (\<exists>k < length (docs c).
           matches (id_query announcement_id) (docs c ! k)
           \<and> (\<forall>j < k. \<not> matches (id_query announcement_id) (docs c ! j))
           \<and> a_id a = Some (case d_id (docs c ! k) of
                             OidV oid \<Rightarrow> str_oid oid | StrV s \<Rightarrow> s)))
   \<and> (i < length (docs c) \<and> length oid = 12 \<and> d_id (docs c ! i) = OidV oid
        \<and> (\<forall>j < i. d_id (docs c ! j) \<noteq> OidV oid) \<and> \<not> no_update_fields data'
        \<and> has_required_fields (set_fields data' (docs c ! i)) \<longrightarrow>
        (\<exists>b c1. update_announcement (str_oid oid) data' usr c = (Inr b, c1)
           \<and> a_id b = Some (str_oid oid)))"
proof -
  have add: "a_id a = Some (str_oid new_oid) \<and> d_id (last (docs c')) = OidV new_oid"
    if "add_announcement body usr now new_oid c = (Inr a, c')"
    using that
    by (auto simp: add_announcement_def insert_one_def with_id_def Announcement_def
          split: sum.splits)
  have add_ok: "\<exists>b c1. add_announcement body usr now new_oid c = (Inr b, c1)"
    if "AnnouncementCreate body = Inr data"
    using that
    by (simp add: add_announcement_def insert_one_def with_id_def Announcement_def)
  have lst: "map a_id as
          = map (\<lambda>d. Some (case d_id d of OidV oid \<Rightarrow> str_oid oid | StrV s \<Rightarrow> s))
              (filter (\<lambda>d. param = Some False
                           \<or> (\<exists>e. d_expiration_date d = Some e \<and> now < e)) (docs c))"
    if "list_announcements param now c = (Inr as, c')"
    using that
    by (simp only: list_announcements_selection prod.inject to_announcements_Inr_iff
          represents_ids)
  have lst_ok: "\<exists>bs c1. list_announcements param now c = (Inr bs, c1)"
    if "list_all has_required_fields (docs c)"
  proof -
    from that have "\<forall>d \<in> set (filter (\<lambda>d. param = Some False
        \<or> (\<exists>e. d_expiration_date d = Some e \<and> now < e)) (docs c)). has_required_fields d"
      by (simp add: list_all_iff)
    from to_announcements_ok [OF this] show ?thesis
      by (auto simp only: list_announcements_selection)
  qed
  have upd: "\<exists>k < length (docs c).
           matches (id_query announcement_id) (docs c ! k)
           \<and> (\<forall>j < k. \<not> matches (id_query announcement_id) (docs c ! j))
           \<and> a_id a = Some (case d_id (docs c ! k) of
                             OidV oid \<Rightarrow> str_oid oid | StrV s \<Rightarrow> s)"
    if u: "update_announcement announcement_id data' usr c = (Inr a, c')"
  proof -
    from update_announcement_Inr [OF u] obtain k where k: "k < length (docs c)"
      "matches (id_query announcement_id) (docs c ! k)"
      "\<forall>j < k. \<not> matches (id_query announcement_id) (docs c ! j)"
      "represents (set_fields data' (docs c ! k)) a"
      by blast
    from k(4) have "a_id a = Some (case d_id (docs c ! k) of
        OidV oid \<Rightarrow> str_oid oid | StrV s \<Rightarrow> s)"
      by (simp add: represents_def id_string_def set_fields_def)
    with k(1-3) show ?thesis by blast
  qed
  have upd_ok: "\<exists>b c1. update_announcement (str_oid oid) data' usr c = (Inr b, c1)
           \<and> a_id b = Some (str_oid oid)"
    if i: "i < length (docs c)" and len: "length oid = 12"
      and id: "d_id (docs c ! i) = OidV oid"
      and first: "\<forall>j < i. d_id (docs c ! j) \<noteq> OidV oid"
      and set: "\<not> no_update_fields data'"
      and req: "has_required_fields (set_fields data' (docs c ! i))"
  proof -
    have q: "id_query (str_oid oid) = IdEq (OidV oid)"
      using len by (rule id_query_str_oid)
    from req obtain b where b: "Announcement (stringify_id (set_fields data' (docs c ! i))) = Inr b"
      using Announcement_stringify_ok by blast
    then have "represents (set_fields data' (docs c ! i)) b"
      by (simp only: Announcement_stringify_iff)
    then have "a_id b = Some (str_oid oid)"
      using id by (simp add: represents_def id_string_def set_fields_def)
    moreover have "update_announcement (str_oid oid) data' usr c
        = (Inr b, c\<lparr>docs := (docs c)[i := set_fields data' (docs c ! i)],
                    calls := calls c @ [FindOneAndUpdate]\<rparr>)"
      using update_announcement_at [of i c "str_oid oid" data' usr] i id first set b
      by (simp add: q)
    ultimately show ?thesis by blast
  qed
  from add add_ok lst lst_ok upd upd_ok show ?thesis by blast
qed

text \<open>
  The three endpoints on the example data: each returns the exam week announcement with
  the id \<^verbatim>\<open>507f1f77bcf86cd799439011\<close>, the string form of the ObjectId of the stored
  document.
\<close>

theorem returned_ids_are_strings_witness:
  "(\<exists>b c1. add_announcement exam_body alice 1000 exam_oid \<lparr>docs = [old_notice], calls = []\<rparr>
             = (Inr b, c1)
           \<and> a_id b = Some ''507f1f77bcf86cd799439011'')
   \<and> (\<exists>bs c1. list_announcements (Some False) 600 school = (Inr bs, c1)
           \<and> map a_id bs = [Some ''notice-1'', Some ''507f1f77bcf86cd799439011''])
   \<and> (\<exists>b c1. update_announcement ''507f1f77bcf86cd799439011'' retitle alice school
             = (Inr b, c1)
           \<and> a_id b = Some ''507f1f77bcf86cd799439011'')"
proof -
  have parsed: "AnnouncementCreate exam_body
      = Inr \<lparr>c_title = ''Exam week'', c_message = ''Finals start Monday'',
             c_start_date = None, c_expiration_date = 8000\<rparr>"
    by (simp add: AnnouncementCreate_def exam_body_def)
  from parsed returned_ids_are_strings
         [where body = exam_body and usr = alice and now = 1000 and new_oid = exam_oid
            and c = "\<lparr>docs = [old_notice], calls = []\<rparr>"
            and data = "\<lparr>c_title = ''Exam week'', c_message = ''Finals start Monday'',
                          c_start_date = None, c_expiration_date = 8000\<rparr>"]
  obtain b c1 where b: "add_announcement exam_body alice 1000 exam_oid
      \<lparr>docs = [old_notice], calls = []\<rparr> = (Inr b, c1)"
    by blast
  with returned_ids_are_strings
         [where body = exam_body and usr = alice and now = 1000 and new_oid = exam_oid
            and c = "\<lparr>docs = [old_notice], calls = []\<rparr>" and a = b and c' = c1]
  have "a_id b = Some ''507f1f77bcf86cd799439011''"
    by (simp add: str_oid_example)
  with b have created: "\<exists>b c1. add_announcement exam_body alice 1000 exam_oid
      \<lparr>docs = [old_notice], calls = []\<rparr> = (Inr b, c1)
      \<and> a_id b = Some ''507f1f77bcf86cd799439011''"
    by (intro exI [of _ b] exI [of _ c1] conjI)
  have complete: "list_all has_required_fields (docs school)"
    by (simp add: school_def old_notice_def exam_week_def has_required_fields_def)
  with returned_ids_are_strings [where param = "Some False" and now = 600 and c = school]
  obtain bs c2 where bs: "list_announcements (Some False) 600 school = (Inr bs, c2)"
    by blast
  with returned_ids_are_strings
         [where param = "Some False" and now = 600 and c = school and as = bs and c' = c2]
  have "map a_id bs = [Some ''notice-1'', Some ''507f1f77bcf86cd799439011'']"
    by (simp add: school_def old_notice_def exam_week_def str_oid_example)
  with bs have listed: "\<exists>bs c1. list_announcements (Some False) 600 school = (Inr bs, c1)
      \<and> map a_id bs = [Some ''notice-1'', Some ''507f1f77bcf86cd799439011'']"
    by (intro exI [of _ bs] exI [of _ c2] conjI)
  have h: "1 < length (docs school) \<and> length exam_oid = 12
      \<and> d_id (docs school ! 1) = OidV exam_oid
      \<and> (\<forall>j < 1. d_id (docs school ! j) \<noteq> OidV exam_oid) \<and> \<not> no_update_fields retitle
      \<and> has_required_fields (set_fields retitle (docs school ! 1))"
    by (simp add: school_def old_notice_def exam_week_def exam_oid_def no_update_fields_def
          retitle_def has_required_fields_def set_fields_def)
  have updated: "\<exists>b c1. update_announcement ''507f1f77bcf86cd799439011'' retitle alice school
      = (Inr b, c1) \<and> a_id b = Some ''507f1f77bcf86cd799439011''"
    using returned_ids_are_strings
            [where i = 1 and oid = exam_oid and c = school and data' = retitle
               and usr = alice,
             THEN conjunct2, THEN conjunct2, THEN conjunct2, THEN conjunct2, THEN conjunct2,
             THEN mp, OF h]
    by (simp only: str_oid_example)
  from created listed updated show ?thesis by (intro conjI)
qed

subsection \<open>Lookup by id\<close>

text \<open>
  The query of \<open>update_announcement\<close> and \<open>delete_announcement\<close> looks for an ObjectId
  when \<^verbatim>\<open>ObjectId.is_valid\<close> accepts the string, and for the string itself otherwise.
\<close>

lemma id_query_not_valid:
  "\<not> is_valid s \<Longrightarrow> id_query s = IdEq (StrV s)"
  by (simp add: id_query_def)

lemma id_query_valid:
  "is_valid s \<Longrightarrow> \<exists>oid. ObjectId s = Some oid \<and> id_query s = IdEq (OidV oid)"
  by (auto simp: id_query_def is_valid_def)

text \<open>
  A document whose id is an ObjectId of twelve bytes is matched by the string form of
  its id. A document whose id is a string is matched by that string exactly when
  \<^verbatim>\<open>ObjectId.is_valid\<close> rejects the string.
\<close>

lemma native_id_is_matched:
  "length oid = 12 \<Longrightarrow> d_id d = OidV oid \<Longrightarrow> matches (id_query (str_oid oid)) d"
  by (simp add: id_query_str_oid)

lemma string_id_is_matched_iff:
  "d_id d = StrV s \<Longrightarrow> matches (id_query s) d \<longleftrightarrow> \<not> is_valid s"
  by (auto simp: id_query_def is_valid_def)

lemma delete_announcement_found:
  assumes "d \<in> set (docs c)" and "matches (id_query announcement_id) d"
  shows "fst (delete_announcement announcement_id usr c) = Inr True"
proof -
  from assms have "delete_first (id_query announcement_id) (docs c) \<noteq> None"
    by (auto simp: delete_first_None_iff)
  then show ?thesis
    by (auto simp: delete_announcement_def delete_one_def)
qed

lemma update_announcement_found:
  assumes "d \<in> set (docs c)" and "matches (id_query announcement_id) d"
    and "\<not> no_update_fields data"
  shows "fst (update_announcement announcement_id data usr c)
           \<noteq> Inl (HTTPException 404 ''Announcement not found.'')"
proof -
  from assms(1,2)
  have "update_first (id_query announcement_id) (set_fields data) (docs c) \<noteq> None"
    by (auto simp: update_first_None_iff)
  then obtain r ds
    where "update_first (id_query announcement_id) (set_fields data) (docs c) = Some (r, ds)"
    by auto
  with assms(3) show ?thesis
    by (cases "Announcement (stringify_id r)")
       (auto simp: update_announcement_def find_one_and_update_def Announcement_def
          split: id_value.splits option.splits)
qed

text \<open>
  Claim C2. The claim asks that an id supplied as a string matches a record whether the
  record's id is stored as an ObjectId or in its string form. The code looks for one of
  the two only: a string of 24 hexadecimal digits is always turned into an ObjectId, so
  a document whose \<^verbatim>\<open>_id\<close> is that same string is listed with this id and is found
  neither by \<open>update_announcement\<close> nor by \<open>delete_announcement\<close>.
\<close>

theorem string_form_id_is_not_matched:
  "d_id imported = StrV ''507f1f77bcf86cd799439011''
   \<and> fst (list_announcements None 600 \<lparr>docs = [imported], calls = []\<rparr>)
       = Inr [\<lparr>a_id = Some ''507f1f77bcf86cd799439011'', a_title = ''Science fair'',
               a_message = ''In the gym'', a_created_at = 200, a_start_date = None,
               a_expiration_date = 9000, a_author = ''carol''\<rparr>]
   \<and> update_announcement ''507f1f77bcf86cd799439011'' retitle alice
         \<lparr>docs = [imported], calls = []\<rparr>
       = (Inl (HTTPException 404 ''Announcement not found.''),
          \<lparr>docs = [imported], calls = [FindOneAndUpdate]\<rparr>)
   \<and> delete_announcement ''507f1f77bcf86cd799439011'' alice
         \<lparr>docs = [imported], calls = []\<rparr>
       = (Inl (HTTPException 404 ''Announcement not found.''),
          \<lparr>docs = [imported], calls = [DeleteOne]\<rparr>)"
  by (simp add: list_announcements_def find_coll_def update_announcement_def
        no_update_fields_def retitle_def id_query_example find_one_and_update_def
        delete_announcement_def delete_one_def imported_def stringify_id_def Announcement_def)

subsection \<open>The invariant of stored announcements\<close>

text \<open>Creation and deletion keep the invariant of stored announcements.\<close>

lemma delete_first_subset:
  "delete_first q ds = Some ds' \<Longrightarrow> set ds' \<subseteq> set ds"
  by (induction ds arbitrary: ds') (auto split: if_splits option.splits)

lemma add_announcement_keeps_stored_invariant:
  assumes "list_all stored_invariant (docs c)"
  shows "list_all stored_invariant (docs (snd (add_announcement body usr now new_oid c)))"
  using assms
  by (cases "b_title body"; cases "b_message body"; cases "b_expiration_date body")
     (auto simp: add_announcement_def AnnouncementCreate_def insert_one_def with_id_def
        stored_invariant_def)

lemma delete_announcement_keeps_stored_invariant:
  assumes "list_all stored_invariant (docs c)"
  shows "list_all stored_invariant (docs (snd (delete_announcement announcement_id usr c)))"
proof (cases "delete_first (id_query announcement_id) (docs c)")
  case None
  with assms show ?thesis by (simp add: delete_announcement_def delete_one_def)
next
  case (Some ds)
  from delete_first_subset [OF Some] assms have "list_all stored_invariant ds"
    by (auto simp: list_all_iff)
  with Some show ?thesis by (simp add: delete_announcement_def delete_one_def)
qed

text \<open>
  Claim C6. The claim asks that every operation keeps the title and the message of a
  stored announcement non-empty and its expiration date present. \<open>AnnouncementUpdate\<close>
  does not repeat the checks of \<open>AnnouncementCreate\<close>: on the exam week announcement
  as \<open>add_announcement\<close> stored it, an update that sets the title to the empty string
  succeeds and stores it, and an update that sets the expiration date to null stores
  the null before the response model rejects the document.
\<close>

theorem update_breaks_stored_invariant:
  "list_all stored_invariant (docs \<lparr>docs = [exam_week], calls = []\<rparr>)
   \<and> update_announcement ''507f1f77bcf86cd799439011'' blank_title alice
         \<lparr>docs = [exam_week], calls = []\<rparr>
       = (Inr (exam_announcement\<lparr>a_title := []\<rparr>),
          \<lparr>docs = [exam_week\<lparr>d_title := Some []\<rparr>], calls = [FindOneAndUpdate]\<rparr>)
   \<and> \<not> list_all stored_invariant [exam_week\<lparr>d_title := Some []\<rparr>]
   \<and> update_announcement ''507f1f77bcf86cd799439011'' null_expiration alice
         \<lparr>docs = [exam_week], calls = []\<rparr>
       = (Inl ValidationError,
          \<lparr>docs = [exam_week\<lparr>d_expiration_date := None\<rparr>], calls = [FindOneAndUpdate]\<rparr>)
   \<and> \<not> list_all stored_invariant [exam_week\<lparr>d_expiration_date := None\<rparr>]"
  by (simp add: update_announcement_def no_update_fields_def blank_title_def
        null_expiration_def id_query_example find_one_and_update_def exam_week_def
        set_fields_def stringify_id_def Announcement_def stored_invariant_def
        str_oid_example exam_announcement_def)

text \<open>
  Outside the invariant the listing raises: after the update that stores a null
  expiration date, listing all announcements fails on that document, and an active
  document with a null title makes the listing of the active announcements fail.
\<close>

lemma list_announcements_raises_on_null_field:
  "docs (snd (update_announcement ''507f1f77bcf86cd799439011'' null_expiration alice school))
     = [old_notice, exam_week\<lparr>d_expiration_date := None\<rparr>]
   \<and> fst (list_announcements (Some False) 600
            \<lparr>docs = [old_notice, exam_week\<lparr>d_expiration_date := None\<rparr>], calls = []\<rparr>)
     = Inl ValidationError
   \<and> fst (list_announcements (Some True) 600
            \<lparr>docs = [old_notice, exam_week\<lparr>d_title := None\<rparr>], calls = []\<rparr>)
     = Inl ValidationError"
  by (simp add: update_announcement_def no_update_fields_def null_expiration_def
        id_query_example find_one_and_update_def set_fields_def list_announcements_def
        find_coll_def school_def old_notice_def exam_week_def stringify_id_def
        Announcement_def)

end
